theory Spec2Isabelle
  imports Main "HOL-Library.Sublist"
begin

section \<open>The certificate information plugin of sslyze\<close>

text \<open>
  A shallow embedding of \<^verbatim>\<open>sslyze/plugins/certificate_info_plugin.py\<close>: the two
  per-store outcome classes, the per-store handshake task, the orchestrating
  \<^verbatim>\<open>process_task\<close>, the constructor of \<^verbatim>\<open>CertificateInfoResult\<close> and the parts of
  the two renderers that describe the per-store path validation and the OCSP staple.

  The classes the plugin imports (the TLS connection, the OCSP response, the parsed
  certificate, the trust store and its repository, the thread pool) are not part of
  this file of the repository. Their objects are records here, their methods are
  fields or parameters, and a method that may raise returns a sum whose left
  injection is the exception.
\<close>

subsection \<open>Exceptions\<close>

text \<open>
  The exception classes the plugin raises, catches or may let through. \<open>OtherError\<close>
  carries the class name and the message of any other exception.
\<close>

datatype py_exception =
    ClientCertificateRequested string
  | OpenSSLError string
  | InvalidCertificateChainOrderError
  | AnchorCertificateNotInTrustStoreError
  | AttributeError string
  | IndexError
  | NameError string
  | RuntimeError string
  | OtherError string string

text \<open>\<^verbatim>\<open>exception.__class__.__name__\<close> and \<^verbatim>\<open>str(exception)\<close>.\<close>

fun class_name :: "py_exception \<Rightarrow> string" where
  "class_name (ClientCertificateRequested m) = ''ClientCertificateRequested''"
| "class_name (OpenSSLError m) = ''OpenSSLError''"
| "class_name InvalidCertificateChainOrderError = ''InvalidCertificateChainOrderError''"
| "class_name AnchorCertificateNotInTrustStoreError = ''AnchorCertificateNotInTrustStoreError''"
| "class_name (AttributeError a) = ''AttributeError''"
| "class_name IndexError = ''IndexError''"
| "class_name (NameError n) = ''NameError''"
| "class_name (RuntimeError m) = ''RuntimeError''"
| "class_name (OtherError c m) = c"

fun str_exception :: "py_exception \<Rightarrow> string" where
  "str_exception (ClientCertificateRequested m) = m"
| "str_exception (OpenSSLError m) = m"
| "str_exception InvalidCertificateChainOrderError = []"
| "str_exception AnchorCertificateNotInTrustStoreError = []"
| "str_exception (AttributeError a) = a"
| "str_exception IndexError = ''list index out of range''"
| "str_exception (NameError n) = n"
| "str_exception (RuntimeError m) = m"
| "str_exception (OtherError c m) = m"

text \<open>Python's \<^verbatim>\<open>sub in s\<close> on strings: \<open>sub\<close> occurs in \<open>s\<close> as a contiguous block.\<close>

fun str_contains :: "string \<Rightarrow> string \<Rightarrow> bool" where
  "str_contains sub [] = (sub = [])"
| "str_contains sub (c # cs) = (prefix sub (c # cs) \<or> str_contains sub cs)"

text \<open>\<^verbatim>\<open>str(b)\<close> of a Python boolean.\<close>

definition str_bool :: "bool \<Rightarrow> string" where
  "str_bool b = (if b then ''True'' else ''False'')"

subsection \<open>Collaborator objects\<close>

text \<open>
  A trust store as the plugin builds one: \<^verbatim>\<open>TrustStore(path, name, version)\<close>. The
  plugin compares stores with \<^verbatim>\<open>==\<close>; a store is a value here, so two stores are
  the same exactly when their three fields agree.
\<close>

record trust_store =
  path :: string
  name :: string
  version :: string

text \<open>
  The parsed certificate (\<^verbatim>\<open>sslyze.plugins.utils.certificate.Certificate\<close>), with the
  attributes the plugin reads; \<open>signatureAlgorithm\<close> is the entry of that key in
  \<^verbatim>\<open>as_dict\<close>. The test \<^verbatim>\<open>cert in self.certificate_chain\<close> is list membership of the
  value.
\<close>

record certificate =
  as_pem :: string
  sha1_fingerprint :: string
  hpkp_pin :: string
  printable_subject_name :: string
  signatureAlgorithm :: string

text \<open>
  The certificate object of the TLS library: \<^verbatim>\<open>Certificate.from_nassl\<close> turns it into
  a parsed certificate, \<^verbatim>\<open>matches_hostname\<close> classifies a host name.
\<close>

record x509_certificate =
  from_nassl :: certificate
  matches_hostname :: "string \<Rightarrow> int"

text \<open>
  The OCSP response object of the TLS library: \<^verbatim>\<open>as_dict()\<close> and \<^verbatim>\<open>verify(path)\<close>,
  which returns the verdict or raises.
\<close>

record ocsp_response_obj =
  as_dict :: "(string \<times> string) list"
  verify :: "string \<Rightarrow> py_exception + bool"

record scan_command =
  custom_ca_file :: "string option"
  should_print_full_certificate :: bool

subsection \<open>Per-store outcomes\<close>

record path_validation_result =
  trust_store :: trust_store
  verify_string :: string
  is_certificate_trusted :: bool

text \<open>\<^verbatim>\<open>PathValidationResult.__init__\<close>.\<close>

definition PathValidationResult :: "trust_store \<Rightarrow> string \<Rightarrow> path_validation_result" where
  "PathValidationResult ts verify_str =
     \<lparr> trust_store = ts,
       verify_string = verify_str,
       is_certificate_trusted = (if verify_str = ''ok'' then True else False) \<rparr>"

record path_validation_error =
  error_trust_store :: trust_store
  error_message :: string

text \<open>\<^verbatim>\<open>PathValidationError.__init__\<close>: the message is \<^verbatim>\<open>'{} - {}'\<close> filled with the
  class name and the text of the exception.\<close>

definition PathValidationError :: "trust_store \<Rightarrow> py_exception \<Rightarrow> path_validation_error" where
  "PathValidationError ts exception =
     \<lparr> error_trust_store = ts,
       error_message = class_name exception @ '' - '' @ str_exception exception \<rparr>"


subsection \<open>The per-store handshake task\<close>

text \<open>
  The connection object \<^verbatim>\<open>get_preconfigured_ssl_connection\<close> returns. What each of
  its methods does when called (return a value or raise) is a field; \<open>tlsext_status_ocsp\<close>
  and \<open>closed\<close> are its state, set by \<^verbatim>\<open>set_tlsext_status_ocsp()\<close> and \<^verbatim>\<open>close()\<close>.
  Building the connection object and asking for the staple open no socket and are taken
  not to raise.
\<close>

record ssl_connection =
  connect :: "py_exception + unit"
  get_tlsext_status_ocsp_resp :: "py_exception + ocsp_response_obj option"
  get_peer_cert_chain :: "py_exception + x509_certificate list"
  get_certificate_chain_verify_result :: "py_exception + (int \<times> string)"
  tlsext_status_ocsp :: bool
  closed :: bool

record server_connectivity_info =
  hostname :: string
  tls_server_name_indication :: string
  get_preconfigured_ssl_connection :: "string \<Rightarrow> ssl_connection"

type_synonym job_result = "x509_certificate list \<times> string \<times> ocsp_response_obj option"

text \<open>The three reads both the \<^verbatim>\<open>try\<close> body and the handler make, in the source's order.\<close>

definition retrieve ::
  "ssl_connection \<Rightarrow> py_exception + (ocsp_response_obj option \<times> x509_certificate list \<times> string)" where
  "retrieve c =
     (case get_tlsext_status_ocsp_resp c of
        Inl e \<Rightarrow> Inl e
      | Inr ocsp_response \<Rightarrow>
          (case get_peer_cert_chain c of
             Inl e \<Rightarrow> Inl e
           | Inr x509_cert_chain \<Rightarrow>
               (case get_certificate_chain_verify_result c of
                  Inl e \<Rightarrow> Inl e
                | Inr (_, verify_str) \<Rightarrow> Inr (ocsp_response, x509_cert_chain, verify_str))))"

definition try_body ::
  "ssl_connection \<Rightarrow> py_exception + (ocsp_response_obj option \<times> x509_certificate list \<times> string)" where
  "try_body c = (case connect c of Inl e \<Rightarrow> Inl e | Inr _ \<Rightarrow> retrieve c)"

text \<open>
  \<^verbatim>\<open>_get_and_verify_certificate_chain\<close>: the connection as the task leaves it, and what
  the task returns or raises. The \<^verbatim>\<open>finally\<close> clause runs on every way out of the
  \<^verbatim>\<open>try\<close> statement.
\<close>

definition get_and_verify_certificate_chain ::
  "server_connectivity_info \<Rightarrow> trust_store \<Rightarrow> ssl_connection \<times> (py_exception + job_result)" where
  "get_and_verify_certificate_chain server_info ts =
     (let ssl_connection = get_preconfigured_ssl_connection server_info (path ts);
          ssl_connection = ssl_connection\<lparr>tlsext_status_ocsp := True\<rparr>;
          outcome =
            (case try_body ssl_connection of
               Inl (ClientCertificateRequested m) \<Rightarrow> retrieve ssl_connection
             | other \<Rightarrow> other);
          ssl_connection = ssl_connection\<lparr>closed := True\<rparr>
      in (ssl_connection,
          case outcome of
            Inl e \<Rightarrow> Inl e
          | Inr (ocsp_response, x509_cert_chain, verify_str) \<Rightarrow>
              Inr (x509_cert_chain, verify_str, ocsp_response)))"

subsection \<open>The scan result and its constructor\<close>

text \<open>
  What the plugin gets from the trust store repository and from the primary store:
  \<^verbatim>\<open>TrustStoresRepository.get_all()\<close> and \<^verbatim>\<open>get_main()\<close>, the two methods of the
  primary store the constructor calls, and the order in which the thread pool hands back
  the jobs it was given.
\<close>

record environment =
  get_all :: "trust_store list"
  get_main :: trust_store
  is_extended_validation :: "certificate \<Rightarrow> bool"
  build_verified_certificate_chain :: "certificate list \<Rightarrow> py_exception + certificate list"
  finish_order :: "trust_store list \<Rightarrow> trust_store list"

record certificate_info_result =
  server_info :: server_connectivity_info
  scan_cmd :: scan_command
  ocsp_response :: "(string \<times> string) list option"
  is_ocsp_response_trusted :: "bool option"
  certificate_chain :: "certificate list"
  is_leaf_certificate_ev :: bool
  verified_certificate_chain :: "certificate list"
  is_certificate_chain_order_valid :: bool
  has_anchor_in_certificate_chain :: "bool option"
  path_validation_result_list :: "path_validation_result list"
  path_validation_error_list :: "path_validation_error list"
  hostname_validation_result :: int
  has_sha1_in_certificate_chain :: "bool option"

text \<open>
  Line 218, \<^verbatim>\<open>print ocsp_response.verify(main_trust_store.path)\<close>: the attribute
  lookup on \<^verbatim>\<open>None\<close> raises, and so may the call. What is printed is not modelled.
\<close>

definition print_ocsp_verify ::
  "ocsp_response_obj option \<Rightarrow> trust_store \<Rightarrow> py_exception + unit" where
  "print_ocsp_verify ocsp main_trust_store =
     (case ocsp of
        None \<Rightarrow> Inl (AttributeError ''verify'')
      | Some resp \<Rightarrow>
          (case verify resp (path main_trust_store) of Inl e \<Rightarrow> Inl e | Inr _ \<Rightarrow> Inr ()))"

text \<open>Line 219: \<^verbatim>\<open>ocsp_response.verify(main_trust_store.path) if ocsp_response else False\<close>.\<close>

definition ocsp_trust ::
  "ocsp_response_obj option \<Rightarrow> trust_store \<Rightarrow> py_exception + bool" where
  "ocsp_trust ocsp main_trust_store =
     (case ocsp of
        Some resp \<Rightarrow> verify resp (path main_trust_store)
      | None \<Rightarrow> Inr False)"

text \<open>
  Lines 226 to 233: the verified chain and the order flag. An exception of the builder
  leaves the chain as initialised, empty; one that is neither of the two caught
  propagates.
\<close>

definition try_build_verified_chain ::
  "environment \<Rightarrow> certificate list \<Rightarrow> py_exception + (certificate list \<times> bool)" where
  "try_build_verified_chain env chain =
     (case build_verified_certificate_chain env chain of
        Inr verified \<Rightarrow> Inr (verified, True)
      | Inl InvalidCertificateChainOrderError \<Rightarrow> Inr ([], False)
      | Inl AnchorCertificateNotInTrustStoreError \<Rightarrow> Inr ([], True)
      | Inl e \<Rightarrow> Inl e)"

text \<open>Lines 236 to 239: the loop over the results; the last entry of the primary store
  decides.\<close>

fun is_chain_trusted_by_main_store ::
  "trust_store \<Rightarrow> path_validation_result list \<Rightarrow> bool \<Rightarrow> bool" where
  "is_chain_trusted_by_main_store main_trust_store [] acc = acc"
| "is_chain_trusted_by_main_store main_trust_store (path_result # rest) acc =
     is_chain_trusted_by_main_store main_trust_store rest
       (if trust_store path_result = main_trust_store
        then is_certificate_trusted path_result else acc)"

text \<open>Lines 258 to 261: the loop over \<^verbatim>\<open>verified_certificate_chain[:-1]\<close>, left at the
  first certificate whose signature algorithm mentions \<open>sha1\<close>.\<close>

fun sha1_loop :: "certificate list \<Rightarrow> bool" where
  "sha1_loop [] = False"
| "sha1_loop (cert # rest) =
     (if str_contains ''sha1'' (signatureAlgorithm cert) then True else sha1_loop rest)"

text \<open>\<^verbatim>\<open>CertificateInfoResult.__init__\<close>.\<close>

definition CertificateInfoResult ::
  "environment \<Rightarrow> server_connectivity_info \<Rightarrow> scan_command \<Rightarrow> x509_certificate list \<Rightarrow>
   path_validation_result list \<Rightarrow> path_validation_error list \<Rightarrow> ocsp_response_obj option \<Rightarrow>
   py_exception + certificate_info_result" where
  "CertificateInfoResult env srv cmd x509_chain results errors ocsp =
     (let main_trust_store = get_main env;
          ocsp_dict = (case ocsp of Some resp \<Rightarrow> Some (as_dict resp) | None \<Rightarrow> None)
      in case print_ocsp_verify ocsp main_trust_store of
           Inl e \<Rightarrow> Inl e
         | Inr _ \<Rightarrow>
      (case ocsp_trust ocsp main_trust_store of
         Inl e \<Rightarrow> Inl e
       | Inr ocsp_trusted \<Rightarrow>
      (let chain = map from_nassl x509_chain
       in case chain of
            [] \<Rightarrow> Inl IndexError
          | leaf # _ \<Rightarrow>
      (let leaf_ev = is_extended_validation env leaf
       in case try_build_verified_chain env chain of
            Inl e \<Rightarrow> Inl e
          | Inr (built, order_valid) \<Rightarrow>
      (let trusted = is_chain_trusted_by_main_store main_trust_store results False;
           verified = (if \<not> trusted then [] else built);
           has_anchor = (if verified \<noteq> [] then Some (last verified \<in> set chain) else None)
       in case x509_chain of
            [] \<Rightarrow> Inl IndexError
          | x509_leaf # _ \<Rightarrow>
      (let hostname_result = matches_hostname x509_leaf (tls_server_name_indication srv);
           has_sha1 = (if verified \<noteq> [] then Some (sha1_loop (butlast verified)) else None)
       in Inr \<lparr> server_info = srv,
                scan_cmd = cmd,
                ocsp_response = ocsp_dict,
                is_ocsp_response_trusted = Some ocsp_trusted,
                certificate_chain = chain,
                is_leaf_certificate_ev = leaf_ev,
                verified_certificate_chain = verified,
                is_certificate_chain_order_valid = order_valid,
                has_anchor_in_certificate_chain = has_anchor,
                path_validation_result_list = results,
                path_validation_error_list = errors,
                hostname_validation_result = hostname_result,
                has_sha1_in_certificate_chain = has_sha1 \<rparr>))))))"

subsection \<open>The orchestrator\<close>

text \<open>The trust stores a scan tries: the repository's, then the custom one if a file was
  given.\<close>

definition final_trust_store_list :: "environment \<Rightarrow> scan_command \<Rightarrow> trust_store list" where
  "final_trust_store_list env cmd =
     get_all env @
     (case custom_ca_file cmd of
        None \<Rightarrow> []
      | Some ca_file \<Rightarrow>
          (if ca_file \<noteq> []
           then [\<lparr> path = ca_file, name = ''Custom --ca_file'', version = ''N/A'' \<rparr>]
           else []))"

text \<open>
  The thread pool: every job added is run once, and the jobs come back in the order the
  pool finished them, the ones that returned through \<^verbatim>\<open>get_result()\<close> and the ones
  that raised through \<^verbatim>\<open>get_error()\<close>.
\<close>

fun get_result ::
  "server_connectivity_info \<Rightarrow> trust_store list \<Rightarrow> (trust_store \<times> job_result) list" where
  "get_result srv [] = []"
| "get_result srv (ts # jobs) =
     (case snd (get_and_verify_certificate_chain srv ts) of
        Inr result \<Rightarrow> (ts, result) # get_result srv jobs
      | Inl e \<Rightarrow> get_result srv jobs)"

fun get_error ::
  "server_connectivity_info \<Rightarrow> trust_store list \<Rightarrow> (trust_store \<times> py_exception) list" where
  "get_error srv [] = []"
| "get_error srv (ts # jobs) =
     (case snd (get_and_verify_certificate_chain srv ts) of
        Inr result \<Rightarrow> get_error srv jobs
      | Inl e \<Rightarrow> (ts, e) # get_error srv jobs)"

text \<open>Lines 119 to 128: the loop over the results; every iteration overwrites the chain
  and the staple.\<close>

fun store_results ::
  "(trust_store \<times> job_result) list \<Rightarrow>
   x509_certificate list \<times> path_validation_result list \<times> ocsp_response_obj option \<Rightarrow>
   x509_certificate list \<times> path_validation_result list \<times> ocsp_response_obj option" where
  "store_results [] acc = acc"
| "store_results ((ts, (chain, validation_result, ocsp)) # rest) (chain0, results, ocsp0) =
     store_results rest (chain, results @ [PathValidationResult ts validation_result], ocsp)"

text \<open>Lines 131 to 135: the loop over the errors.\<close>

fun store_errors ::
  "(trust_store \<times> py_exception) list \<Rightarrow>
   path_validation_error list \<times> py_exception option \<Rightarrow>
   path_validation_error list \<times> py_exception option" where
  "store_errors [] acc = acc"
| "store_errors ((ts, exception) # rest) (errors, last_exception) =
     store_errors rest (errors @ [PathValidationError ts exception], Some exception)"

text \<open>\<^verbatim>\<open>format\<close> of the last exception, which is \<^verbatim>\<open>None\<close> when nothing failed.\<close>

definition format_last_exception :: "py_exception option \<Rightarrow> string" where
  "format_last_exception e = (case e of None \<Rightarrow> ''None'' | Some ex \<Rightarrow> str_exception ex)"

text \<open>\<^verbatim>\<open>CertificateInfoPlugin.process_task\<close>.\<close>

definition process_task ::
  "environment \<Rightarrow> server_connectivity_info \<Rightarrow> scan_command \<Rightarrow>
   py_exception + certificate_info_result" where
  "process_task env srv cmd =
     (let stores = final_trust_store_list env cmd;
          finished = finish_order env stores;
          (chain, results, ocsp) = store_results (get_result srv finished) ([], [], None);
          (errors, last_exception) = store_errors (get_error srv finished) ([], None)
      in if length errors = length stores
         then Inl (RuntimeError
                (''Could not connect to the server; last error: '' @
                 format_last_exception last_exception))
         else CertificateInfoResult env srv cmd chain results errors ocsp)"

subsection \<open>The reports\<close>

text \<open>
  \<^verbatim>\<open>_format_field(title, value)\<close> belongs to the base class of the result; a field is
  kept as its title and its value.
\<close>

datatype text_field = Field string string

definition TRUST_FORMAT :: "trust_store \<Rightarrow> string" where
  "TRUST_FORMAT ts = name ts @ '' CA Store ('' @ version ts @ ''):''"

text \<open>Lines 296 to 305 of \<^verbatim>\<open>as_text\<close>: the text of one path validation result.\<close>

definition path_txt :: "environment \<Rightarrow> certificate_info_result \<Rightarrow> path_validation_result \<Rightarrow> string" where
  "path_txt env r path_result =
     (if is_certificate_trusted path_result
      then (let ev_txt =
                  (if is_leaf_certificate_ev r \<and> get_main env = trust_store path_result
                   then '', Extended Validation'' else [])
            in ''OK - Certificate is trusted'' @ ev_txt)
      else ''FAILED - Certificate is NOT Trusted: '' @ verify_string path_result)"

text \<open>
  Lines 295 to 316 of \<^verbatim>\<open>as_text\<close>: one field per result, then one per error. The
  second loop names the store through \<^verbatim>\<open>path_result\<close>, the variable of the first
  loop: it is the last result's store, and unbound when there was no result.
\<close>

definition as_text_path_validation ::
  "environment \<Rightarrow> certificate_info_result \<Rightarrow> py_exception + text_field list" where
  "as_text_path_validation env r =
     (let result_fields =
            map (\<lambda>path_result.
                   Field (TRUST_FORMAT (trust_store path_result)) (path_txt env r path_result))
              (path_validation_result_list r)
      in if path_validation_error_list r = [] then Inr result_fields
         else if path_validation_result_list r = [] then Inl (NameError ''path_result'')
         else Inr (result_fields @
                   map (\<lambda>path_error.
                          Field (TRUST_FORMAT (trust_store (last (path_validation_result_list r))))
                            (''ERROR: '' @ error_message path_error))
                     (path_validation_error_list r)))"

text \<open>
  Lines 353 to 365 of \<^verbatim>\<open>as_text\<close>: the trust line of the OCSP section. The body of the
  \<^verbatim>\<open>try\<close> statement reads a stored attribute; the handler is written out as the
  source has it.
\<close>

definition ocsp_trust_txt :: "certificate_info_result \<Rightarrow> py_exception + string" where
  "ocsp_trust_txt r =
     (let body = (Inr (if is_ocsp_response_trusted r = Some True
                       then ''OK - Response is trusted''
                       else ''FAILED - Response is NOT trusted'') :: py_exception + string)
      in case body of
           Inl (OpenSSLError m) \<Rightarrow>
             (if str_contains ''certificate verify error'' m
              then Inr ''FAILED - Response is NOT trusted''
              else Inl (OpenSSLError m))
         | other \<Rightarrow> other)"

text \<open>
  Lines 431 to 442 of \<^verbatim>\<open>as_xml\<close>: the attributes of the \<open>pathValidation\<close> element of
  one result, a dictionary kept as the list of its entries in the order they are set.
\<close>

definition path_attrib_xml ::
  "certificate_info_result \<Rightarrow> path_validation_result \<Rightarrow> (string \<times> string) list" where
  "path_attrib_xml r path_result =
     (let attrib = [(''usingTrustStore'', name (trust_store path_result)),
                    (''trustStoreVersion'', version (trust_store path_result)),
                    (''validationResult'', verify_string path_result)]
      in if str_contains ''Mozilla'' (name (trust_store path_result))
         then (if is_leaf_certificate_ev r
               then attrib @ [(''isExtendedValidationCertificate'',
                               str_bool (is_leaf_certificate_ev r))]
               else attrib)
         else attrib)"

text \<open>The entry of a path validation result carries the marker of Extended Validation:
  the suffix of the text, the attribute of the element.\<close>

definition text_has_ev_marker ::
  "environment \<Rightarrow> certificate_info_result \<Rightarrow> path_validation_result \<Rightarrow> bool" where
  "text_has_ev_marker env r path_result =
     (path_txt env r path_result = ''OK - Certificate is trusted, Extended Validation'')"

definition xml_has_ev_marker ::
  "certificate_info_result \<Rightarrow> path_validation_result \<Rightarrow> bool" where
  "xml_has_ev_marker r path_result =
     (''isExtendedValidationCertificate'' \<in> set (map fst (path_attrib_xml r path_result)))"

subsection \<open>A sample scan\<close>

text \<open>
  Two stores of the repository, the first the primary one, and a third store whose name
  also mentions Mozilla; a leaf, an intermediate and a root certificate, the root alone
  signed with SHA-1; a server that sends the leaf and the intermediate.
\<close>

definition mozilla_store :: trust_store where
  "mozilla_store = \<lparr> path = ''mozilla.pem'', name = ''Mozilla NSS'', version = ''09/2016'' \<rparr>"

definition microsoft_store :: trust_store where
  "microsoft_store = \<lparr> path = ''microsoft.pem'', name = ''Microsoft'', version = ''09/2016'' \<rparr>"

definition mozilla_snapshot_store :: trust_store where
  "mozilla_snapshot_store =
     \<lparr> path = ''snapshot.pem'', name = ''Mozilla 2014 snapshot'', version = ''N/A'' \<rparr>"

definition leaf_cert :: certificate where
  "leaf_cert = \<lparr> as_pem = ''LEAF'', sha1_fingerprint = ''01'', hpkp_pin = ''p1'',
                 printable_subject_name = ''www.example.com'',
                 signatureAlgorithm = ''sha256WithRSAEncryption'' \<rparr>"

definition intermediate_cert :: certificate where
  "intermediate_cert = \<lparr> as_pem = ''INTERMEDIATE'', sha1_fingerprint = ''02'', hpkp_pin = ''p2'',
                 printable_subject_name = ''Example Issuing CA'',
                 signatureAlgorithm = ''sha256WithRSAEncryption'' \<rparr>"

definition root_cert :: certificate where
  "root_cert = \<lparr> as_pem = ''ROOT'', sha1_fingerprint = ''03'', hpkp_pin = ''p3'',
                 printable_subject_name = ''Example Root CA'',
                 signatureAlgorithm = ''sha1WithRSAEncryption'' \<rparr>"

definition x509 :: "certificate \<Rightarrow> x509_certificate" where
  "x509 c = \<lparr> from_nassl = c, matches_hostname = (\<lambda>h. 1) \<rparr>"

definition trusted_staple :: ocsp_response_obj where
  "trusted_staple =
     \<lparr> as_dict = [(''responseStatus'', ''successful'')], verify = (\<lambda>p. Inr True) \<rparr>"

definition untrusted_staple :: ocsp_response_obj where
  "untrusted_staple =
     \<lparr> as_dict = [(''responseStatus'', ''successful'')],
       verify = (\<lambda>p. Inl (OpenSSLError ''certificate verify error'')) \<rparr>"

text \<open>The primary store of the sample links the leaf through the intermediate to the
  root, reports the swapped chain as out of order and knows no other chain.\<close>

definition sample_env :: environment where
  "sample_env =
     \<lparr> get_all = [mozilla_store, microsoft_store],
       get_main = mozilla_store,
       is_extended_validation = (\<lambda>c. True),
       build_verified_certificate_chain =
         (\<lambda>chain. if chain = [leaf_cert, intermediate_cert]
                   then Inr [leaf_cert, intermediate_cert, root_cert]
                   else if chain = [intermediate_cert, leaf_cert]
                   then Inl InvalidCertificateChainOrderError
                   else Inl AnchorCertificateNotInTrustStoreError),
       finish_order = (\<lambda>jobs. jobs) \<rparr>"

definition sample_connection ::
  "py_exception + unit \<Rightarrow> ocsp_response_obj option \<Rightarrow> string \<Rightarrow> ssl_connection" where
  "sample_connection handshake staple verdict =
     \<lparr> connect = handshake,
       get_tlsext_status_ocsp_resp = Inr staple,
       get_peer_cert_chain = Inr [x509 leaf_cert, x509 intermediate_cert],
       get_certificate_chain_verify_result = Inr (0, verdict),
       tlsext_status_ocsp = False,
       closed = False \<rparr>"

text \<open>A server whose handshakes all end the same way, with the given staple.\<close>

definition sample_server ::
  "py_exception + unit \<Rightarrow> ocsp_response_obj option \<Rightarrow> server_connectivity_info" where
  "sample_server handshake staple =
     \<lparr> hostname = ''www.example.com'',
       tls_server_name_indication = ''www.example.com'',
       get_preconfigured_ssl_connection = (\<lambda>p. sample_connection handshake staple ''ok'') \<rparr>"

text \<open>
  A second leaf, signed with ECDSA over SHA-1 under the name the TLS library prints for
  that algorithm, and a primary store that also links this leaf to the root.
\<close>

definition ecdsa_sha1_leaf_cert :: certificate where
  "ecdsa_sha1_leaf_cert = \<lparr> as_pem = ''ECDSA LEAF'', sha1_fingerprint = ''04'', hpkp_pin = ''p4'',
                 printable_subject_name = ''ec.example.com'',
                 signatureAlgorithm = ''ecdsa-with-SHA1'' \<rparr>"

definition ecdsa_env :: environment where
  "ecdsa_env =
     sample_env \<lparr> build_verified_certificate_chain :=
         (\<lambda>chain. if chain = [ecdsa_sha1_leaf_cert, intermediate_cert]
                   then Inr [ecdsa_sha1_leaf_cert, intermediate_cert, root_cert]
                   else build_verified_certificate_chain sample_env chain) \<rparr>"

definition sample_command :: scan_command where
  "sample_command = \<lparr> custom_ca_file = None, should_print_full_certificate = False \<rparr>"

section \<open>Auxiliary facts\<close>

text \<open>The definitions to unfold when a construction or a task is evaluated on the sample.\<close>

lemmas sample_defs =
  sample_env_def sample_server_def sample_command_def sample_connection_def
  mozilla_store_def microsoft_store_def mozilla_snapshot_store_def
  leaf_cert_def intermediate_cert_def root_cert_def x509_def
  trusted_staple_def untrusted_staple_def

lemmas ctor_defs =
  CertificateInfoResult_def print_ocsp_verify_def ocsp_trust_def
  try_build_verified_chain_def PathValidationResult_def PathValidationError_def Let_def

text \<open>The two loops of the constructor, as properties of the lists they run over.\<close>

lemma sha1_loop_iff: "sha1_loop cs = (\<exists>c \<in> set cs. str_contains ''sha1'' (signatureAlgorithm c))"
  by (induction cs) auto

lemma not_trusted_loop:
  "\<forall>p \<in> set results. trust_store p = main \<longrightarrow> \<not> is_certificate_trusted p \<Longrightarrow> \<not> acc
   \<Longrightarrow> \<not> is_chain_trusted_by_main_store main results acc"
  by (induction results arbitrary: acc) auto

text \<open>
  A construction that returns had a staple whose verification returned, a non-empty
  chain and a builder that returned or raised one of the two faults; the result is then
  this record.
\<close>

lemma CertificateInfoResult_InrD:
  assumes ok: "CertificateInfoResult env srv cmd xs results errors ocsp = Inr r"
  shows "\<exists>built order_valid resp b x rest.
           ocsp = Some resp \<and> verify resp (path (get_main env)) = Inr b \<and>
           xs = x # rest \<and>
           try_build_verified_chain env (map from_nassl xs) = Inr (built, order_valid) \<and>
           r = \<lparr> server_info = srv,
                scan_cmd = cmd,
                ocsp_response = Some (as_dict resp),
                is_ocsp_response_trusted = Some b,
                certificate_chain = map from_nassl xs,
                is_leaf_certificate_ev = is_extended_validation env (from_nassl x),
                verified_certificate_chain =
                  (if is_chain_trusted_by_main_store (get_main env) results False then built else []),
                is_certificate_chain_order_valid = order_valid,
                has_anchor_in_certificate_chain =
                  (if is_chain_trusted_by_main_store (get_main env) results False \<and> built \<noteq> []
                   then Some (last built \<in> set (map from_nassl xs)) else None),
                path_validation_result_list = results,
                path_validation_error_list = errors,
                hostname_validation_result = matches_hostname x (tls_server_name_indication srv),
                has_sha1_in_certificate_chain =
                  (if is_chain_trusted_by_main_store (get_main env) results False \<and> built \<noteq> []
                   then Some (sha1_loop (butlast built)) else None) \<rparr>"
proof (cases ocsp)
  case None
  with ok show ?thesis
    by (simp add: CertificateInfoResult_def print_ocsp_verify_def)
next
  case (Some resp)
  show ?thesis
  proof (cases "verify resp (path (get_main env))")
    case (Inl e)
    with ok Some show ?thesis
      by (simp add: CertificateInfoResult_def print_ocsp_verify_def)
  next
    case (Inr b)
    show ?thesis
    proof (cases xs)
      case Nil
      with ok Some Inr show ?thesis
        by (simp add: CertificateInfoResult_def print_ocsp_verify_def ocsp_trust_def)
    next
      case (Cons x rest)
      show ?thesis
      proof (cases "try_build_verified_chain env (map from_nassl xs)")
        case (Inl e)
        with ok Some Inr Cons show ?thesis
          by (simp add: CertificateInfoResult_def print_ocsp_verify_def ocsp_trust_def)
      next
        case built: (Inr p)
        obtain built order_valid where p: "p = (built, order_valid)" by (cases p)
        from ok Some Inr Cons built p show ?thesis
          by (auto simp add: CertificateInfoResult_def print_ocsp_verify_def ocsp_trust_def Let_def)
      qed
    qed
  qed
qed

lemma verified_chain_of_result:
  assumes "CertificateInfoResult env srv cmd xs results errors ocsp = Inr r"
  shows "\<exists>built order_valid.
           try_build_verified_chain env (map from_nassl xs) = Inr (built, order_valid) \<and>
           is_certificate_chain_order_valid r = order_valid \<and>
           verified_certificate_chain r =
             (if is_chain_trusted_by_main_store (get_main env) results False then built else [])"
  using CertificateInfoResult_InrD [OF assms] by auto

lemma flags_of_result:
  assumes "CertificateInfoResult env srv cmd xs results errors ocsp = Inr r"
  shows "has_anchor_in_certificate_chain r =
           (if verified_certificate_chain r \<noteq> []
            then Some (last (verified_certificate_chain r) \<in> set (certificate_chain r)) else None)"
    and "has_sha1_in_certificate_chain r =
           (if verified_certificate_chain r \<noteq> []
            then Some (sha1_loop (butlast (verified_certificate_chain r))) else None)"
  using CertificateInfoResult_InrD [OF assms] by (auto split: if_splits)

lemmas task_defs =
  get_and_verify_certificate_chain_def try_body_def retrieve_def

text \<open>
  The OCSP verdict. Without a staple the constructor raises, and an error of the
  verification leaves the constructor; the verdict stored is what the verification
  returned, and the trust line of the text report is computed from it without raising.
\<close>

lemma CertificateInfoResult_no_staple:
  "CertificateInfoResult env srv cmd xs results errors None = Inl (AttributeError ''verify'')"
  by (simp add: CertificateInfoResult_def print_ocsp_verify_def)

lemma CertificateInfoResult_verify_raises:
  "verify resp (path (get_main env)) = Inl e \<Longrightarrow>
   CertificateInfoResult env srv cmd xs results errors (Some resp) = Inl e"
  by (simp add: CertificateInfoResult_def print_ocsp_verify_def)

lemma ocsp_verdict_of_result:
  assumes "CertificateInfoResult env srv cmd xs results errors ocsp = Inr r"
  shows "\<exists>resp b. ocsp = Some resp \<and> verify resp (path (get_main env)) = Inr b
           \<and> is_ocsp_response_trusted r = Some b"
  using CertificateInfoResult_InrD [OF assms] by auto

lemma ocsp_trust_txt_returns:
  "ocsp_trust_txt r =
     Inr (if is_ocsp_response_trusted r = Some True
          then ''OK - Response is trusted'' else ''FAILED - Response is NOT trusted'')"
  by (simp add: ocsp_trust_txt_def)

text \<open>
  The orchestrator. When as many jobs failed as there are stores the scan raises the
  connectivity error with the text of the last error; a result that is returned holds
  one per-store outcome for every job the pool ran.
\<close>

lemma store_errors_eq:
  "store_errors es (errors, last_exception) =
     (errors @ map (\<lambda>(ts, e). PathValidationError ts e) es,
      if es = [] then last_exception else Some (snd (last es)))"
  by (induction es arbitrary: errors last_exception) auto

lemma store_results_results:
  "fst (snd (store_results rs (chain, results, ocsp))) =
     results @ map (\<lambda>(ts, (c, v, s)). PathValidationResult ts v) rs"
  by (induction rs arbitrary: chain results ocsp) auto

lemma length_get_result_get_error:
  "length (get_result srv jobs) + length (get_error srv jobs) = length jobs"
  by (induction jobs) (auto split: sum.splits)

lemma process_task_all_failed:
  assumes "length (get_error srv (finish_order env (final_trust_store_list env cmd)))
             = length (final_trust_store_list env cmd)"
  shows "process_task env srv cmd =
           Inl (RuntimeError (''Could not connect to the server; last error: '' @
             format_last_exception
               (if get_error srv (finish_order env (final_trust_store_list env cmd)) = [] then None
                else Some (snd (last (get_error srv (finish_order env (final_trust_store_list env cmd))))))))"
  using assms
  by (simp add: process_task_def Let_def store_errors_eq split: prod.splits)

lemma process_task_outcomes:
  assumes "process_task env srv cmd = Inr r"
  shows "length (path_validation_result_list r) + length (path_validation_error_list r)
           = length (finish_order env (final_trust_store_list env cmd))"
proof -
  let ?fin = "finish_order env (final_trust_store_list env cmd)"
  obtain chain results ocsp where sr: "store_results (get_result srv ?fin) ([], [], None) = (chain, results, ocsp)"
    by (cases "store_results (get_result srv ?fin) ([], [], None)") auto
  have res: "results = map (\<lambda>(ts, (c, v, s)). PathValidationResult ts v) (get_result srv ?fin)"
    using store_results_results [of "get_result srv ?fin" "[]" "[]" None] sr by simp
  let ?errs = "map (\<lambda>(ts, e). PathValidationError ts e) (get_error srv ?fin)"
  from assms sr have "CertificateInfoResult env srv cmd chain results ?errs ocsp = Inr r"
    by (simp add: process_task_def Let_def store_errors_eq split: if_splits)
  from CertificateInfoResult_InrD [OF this]
  have "path_validation_result_list r = results" "path_validation_error_list r = ?errs"
    by auto
  with res length_get_result_get_error [of srv ?fin] show ?thesis by simp
qed



text \<open>
  The SHA-1 flag of a result: null without a verified chain, and otherwise whether a
  certificate before the last one has the text \<open>sha1\<close> in its signature algorithm.
\<close>

lemma sha1_flag_of_result:
  assumes "CertificateInfoResult env srv cmd xs results errors ocsp = Inr r"
  shows "(verified_certificate_chain r = [] \<longrightarrow> has_sha1_in_certificate_chain r = None)
       \<and> (verified_certificate_chain r \<noteq> [] \<longrightarrow>
            has_sha1_in_certificate_chain r =
              Some (\<exists>c \<in> set (butlast (verified_certificate_chain r)).
                      str_contains ''sha1'' (signatureAlgorithm c)))
       \<and> (verified_certificate_chain r \<noteq> []
            \<and> str_contains ''sha1'' (signatureAlgorithm (last (verified_certificate_chain r)))
            \<and> (\<forall>c \<in> set (butlast (verified_certificate_chain r)).
                  \<not> str_contains ''sha1'' (signatureAlgorithm c))
          \<longrightarrow> has_sha1_in_certificate_chain r = Some False)"
  using flags_of_result(2) [OF assms] by (simp add: sha1_loop_iff)






text \<open>
  The constructor called by hand with a store that no repository of the sample holds and
  whose name mentions Mozilla: the element of that entry carries the attribute, the line
  of the text report does not.
\<close>

lemma xml_marks_store_named_mozilla:
  "\<not> isl (CertificateInfoResult sample_env (sample_server (Inr ()) (Some trusted_staple)) sample_command
       [x509 leaf_cert, x509 intermediate_cert]
       [PathValidationResult mozilla_store ''ok'', PathValidationResult mozilla_snapshot_store ''ok'']
       [] (Some trusted_staple))
   \<and> trust_store (PathValidationResult mozilla_snapshot_store ''ok'') \<noteq> get_main sample_env
   \<and> xml_has_ev_marker
       (projr (CertificateInfoResult sample_env (sample_server (Inr ()) (Some trusted_staple)) sample_command
          [x509 leaf_cert, x509 intermediate_cert]
          [PathValidationResult mozilla_store ''ok'', PathValidationResult mozilla_snapshot_store ''ok'']
          [] (Some trusted_staple)))
       (PathValidationResult mozilla_snapshot_store ''ok'')
   \<and> \<not> text_has_ev_marker sample_env
       (projr (CertificateInfoResult sample_env (sample_server (Inr ()) (Some trusted_staple)) sample_command
          [x509 leaf_cert, x509 intermediate_cert]
          [PathValidationResult mozilla_store ''ok'', PathValidationResult mozilla_snapshot_store ''ok'']
          [] (Some trusted_staple)))
       (PathValidationResult mozilla_snapshot_store ''ok'')"
  by (simp add: ctor_defs sample_defs xml_has_ev_marker_def path_attrib_xml_def
      text_has_ev_marker_def path_txt_def str_bool_def)

section \<open>Properties\<close>

text \<open>
  C8. For every per-store validation outcome, the trusted flag is true if and only if
  the verify string reported by the library is the literal success string \<open>ok\<close>; the
  store and the string are kept as given. No other string is classified as trusted.
\<close>

theorem C8_trusted_iff_verify_string_ok:
  "is_certificate_trusted (PathValidationResult ts verify_str) = (verify_str = ''ok'')
   \<and> verify_string (PathValidationResult ts verify_str) = verify_str
   \<and> trust_store (PathValidationResult ts verify_str) = ts"
  by (simp add: PathValidationResult_def)

text \<open>
  C1. Whenever a scan result is constructed from per-store results in which every entry of
  the primary store has a verify string other than \<open>ok\<close> (in particular when there is no
  entry of the primary store), the verified certificate chain of the result is empty,
  whatever chain the builder of the primary store returned.
\<close>

theorem C1_untrusted_primary_verdict_empties_verified_chain:
  assumes "CertificateInfoResult env srv cmd xs
             (map (\<lambda>(ts, verify_str). PathValidationResult ts verify_str) verdicts) errors ocsp = Inr r"
    and "\<forall>(ts, verify_str) \<in> set verdicts. ts = get_main env \<longrightarrow> verify_str \<noteq> ''ok''"
  shows "verified_certificate_chain r = []"
proof -
  have "\<not> is_chain_trusted_by_main_store (get_main env)
          (map (\<lambda>(ts, verify_str). PathValidationResult ts verify_str) verdicts) False"
    using assms(2) by (intro not_trusted_loop) (auto simp: PathValidationResult_def)
  with verified_chain_of_result [OF assms(1)] show ?thesis by auto
qed

theorem C1_witness:
  "\<not> isl (CertificateInfoResult sample_env (sample_server (Inr ()) (Some trusted_staple)) sample_command
       [x509 leaf_cert, x509 intermediate_cert]
       (map (\<lambda>(ts, verify_str). PathValidationResult ts verify_str)
          [(mozilla_store, ''certificate has expired''), (microsoft_store, ''ok'')])
       [] (Some trusted_staple))
   \<and> build_verified_certificate_chain sample_env (map from_nassl [x509 leaf_cert, x509 intermediate_cert])
       = Inr [leaf_cert, intermediate_cert, root_cert]
   \<and> verified_certificate_chain
       (projr (CertificateInfoResult sample_env (sample_server (Inr ()) (Some trusted_staple)) sample_command
          [x509 leaf_cert, x509 intermediate_cert]
          (map (\<lambda>(ts, verify_str). PathValidationResult ts verify_str)
             [(mozilla_store, ''certificate has expired''), (microsoft_store, ''ok'')])
          [] (Some trusted_staple))) = []"
proof -
  let ?c = "CertificateInfoResult sample_env (sample_server (Inr ()) (Some trusted_staple)) sample_command
       [x509 leaf_cert, x509 intermediate_cert]
       (map (\<lambda>(ts, verify_str). PathValidationResult ts verify_str)
          [(mozilla_store, ''certificate has expired''), (microsoft_store, ''ok'')])
       [] (Some trusted_staple)"
  have ok: "\<not> isl ?c"
    by (simp add: ctor_defs sample_defs)
  then have eq: "?c = Inr (projr ?c)"
    by simp
  have verdicts: "\<forall>(ts, verify_str) \<in> set [(mozilla_store, ''certificate has expired''), (microsoft_store, ''ok'')].
          ts = get_main sample_env \<longrightarrow> verify_str \<noteq> ''ok''"
    by (simp add: sample_defs)
  have built: "build_verified_certificate_chain sample_env (map from_nassl [x509 leaf_cert, x509 intermediate_cert])
       = Inr [leaf_cert, intermediate_cert, root_cert]"
    by (simp add: sample_defs)
  from C1_untrusted_primary_verdict_empties_verified_chain [OF eq verdicts] ok built
  show ?thesis by simp
qed

text \<open>
  C10. If the list of per-store results holds no entry of the primary trust store, the
  verified certificate chain of the constructed result is empty, whatever the builder
  returned: the trust flag of the primary store starts as untrusted and no entry changes
  it.
\<close>

theorem C10_no_primary_entry_empties_verified_chain:
  assumes "CertificateInfoResult env srv cmd xs results errors ocsp = Inr r"
    and "get_main env \<notin> trust_store ` set results"
  shows "verified_certificate_chain r = []"
proof -
  have "\<not> is_chain_trusted_by_main_store (get_main env) results False"
    using assms(2) by (intro not_trusted_loop) (auto simp: image_iff)
  with verified_chain_of_result [OF assms(1)] show ?thesis by auto
qed

theorem C10_witness:
  "\<not> isl (CertificateInfoResult sample_env (sample_server (Inr ()) (Some trusted_staple)) sample_command
       [x509 leaf_cert, x509 intermediate_cert]
       [PathValidationResult microsoft_store ''ok'']
       [PathValidationError mozilla_store (OtherError ''timeout'' ''timed out'')]
       (Some trusted_staple))
   \<and> get_main sample_env \<notin> trust_store ` set [PathValidationResult microsoft_store ''ok'']
   \<and> build_verified_certificate_chain sample_env (map from_nassl [x509 leaf_cert, x509 intermediate_cert])
       = Inr [leaf_cert, intermediate_cert, root_cert]
   \<and> verified_certificate_chain
       (projr (CertificateInfoResult sample_env (sample_server (Inr ()) (Some trusted_staple)) sample_command
          [x509 leaf_cert, x509 intermediate_cert]
          [PathValidationResult microsoft_store ''ok'']
          [PathValidationError mozilla_store (OtherError ''timeout'' ''timed out'')]
          (Some trusted_staple))) = []"
proof -
  let ?c = "CertificateInfoResult sample_env (sample_server (Inr ()) (Some trusted_staple)) sample_command
       [x509 leaf_cert, x509 intermediate_cert]
       [PathValidationResult microsoft_store ''ok'']
       [PathValidationError mozilla_store (OtherError ''timeout'' ''timed out'')]
       (Some trusted_staple)"
  have ok: "\<not> isl ?c"
    by (simp add: ctor_defs sample_defs)
  then have eq: "?c = Inr (projr ?c)"
    by simp
  have absent: "get_main sample_env \<notin> trust_store ` set [PathValidationResult microsoft_store ''ok'']"
    by (simp add: PathValidationResult_def sample_defs)
  have built: "build_verified_certificate_chain sample_env (map from_nassl [x509 leaf_cert, x509 intermediate_cert])
       = Inr [leaf_cert, intermediate_cert, root_cert]"
    by (simp add: sample_defs)
  from C10_no_primary_entry_empties_verified_chain [OF eq absent] ok absent built
  show ?thesis by simp
qed

text \<open>
  C5, at one input. The primary store trusts a chain whose leaf is signed with ECDSA over
  SHA-1, named \<open>ecdsa-with-SHA1\<close>; the leaf is not the anchor. The result is constructed
  with the SHA-1 flag false: the test of line 259 looks for the lower-case text \<open>sha1\<close>.
\<close>

theorem C5_uppercase_sha1_name_not_detected:
  "\<not> isl (CertificateInfoResult ecdsa_env (sample_server (Inr ()) (Some trusted_staple)) sample_command
       [x509 ecdsa_sha1_leaf_cert, x509 intermediate_cert]
       [PathValidationResult mozilla_store ''ok''] [] (Some trusted_staple))
   \<and> verified_certificate_chain
       (projr (CertificateInfoResult ecdsa_env (sample_server (Inr ()) (Some trusted_staple)) sample_command
          [x509 ecdsa_sha1_leaf_cert, x509 intermediate_cert]
          [PathValidationResult mozilla_store ''ok''] [] (Some trusted_staple)))
       = [ecdsa_sha1_leaf_cert, intermediate_cert, root_cert]
   \<and> signatureAlgorithm ecdsa_sha1_leaf_cert = ''ecdsa-with-SHA1''
   \<and> has_sha1_in_certificate_chain
       (projr (CertificateInfoResult ecdsa_env (sample_server (Inr ()) (Some trusted_staple)) sample_command
          [x509 ecdsa_sha1_leaf_cert, x509 intermediate_cert]
          [PathValidationResult mozilla_store ''ok''] [] (Some trusted_staple)))
       = Some False"
  by (simp add: ctor_defs sample_defs ecdsa_env_def ecdsa_sha1_leaf_cert_def)

text \<open>
  C6. In a constructed result the anchor flag is null when the verified chain is empty;
  otherwise it is true exactly when the last certificate of the verified chain is a
  member of the received chain, which is the chain the server sent, parsed.
\<close>

theorem C6_anchor_flag:
  assumes "CertificateInfoResult env srv cmd xs results errors ocsp = Inr r"
  shows "(verified_certificate_chain r = [] \<longrightarrow> has_anchor_in_certificate_chain r = None)
       \<and> (verified_certificate_chain r \<noteq> [] \<longrightarrow>
            has_anchor_in_certificate_chain r =
              Some (last (verified_certificate_chain r) \<in> set (certificate_chain r)))
       \<and> certificate_chain r = map from_nassl xs"
  using flags_of_result(1) [OF assms] CertificateInfoResult_InrD [OF assms]
  by (auto split: if_splits)

theorem C6_witness:
  "\<not> isl (CertificateInfoResult sample_env (sample_server (Inr ()) (Some trusted_staple)) sample_command
       [x509 leaf_cert, x509 intermediate_cert]
       [PathValidationResult mozilla_store ''ok'', PathValidationResult microsoft_store ''ok'']
       [] (Some trusted_staple))
   \<and> verified_certificate_chain
       (projr (CertificateInfoResult sample_env (sample_server (Inr ()) (Some trusted_staple)) sample_command
          [x509 leaf_cert, x509 intermediate_cert]
          [PathValidationResult mozilla_store ''ok'', PathValidationResult microsoft_store ''ok'']
          [] (Some trusted_staple)))
       = [leaf_cert, intermediate_cert, root_cert]
   \<and> has_anchor_in_certificate_chain
       (projr (CertificateInfoResult sample_env (sample_server (Inr ()) (Some trusted_staple)) sample_command
          [x509 leaf_cert, x509 intermediate_cert]
          [PathValidationResult mozilla_store ''ok'', PathValidationResult microsoft_store ''ok'']
          [] (Some trusted_staple)))
       = Some False
   \<and> \<not> isl (CertificateInfoResult sample_env (sample_server (Inr ()) (Some trusted_staple)) sample_command
       [x509 leaf_cert, x509 intermediate_cert]
       [PathValidationResult mozilla_store ''unable to get local issuer certificate'',
        PathValidationResult microsoft_store ''ok'']
       [] (Some trusted_staple))
   \<and> verified_certificate_chain
       (projr (CertificateInfoResult sample_env (sample_server (Inr ()) (Some trusted_staple)) sample_command
          [x509 leaf_cert, x509 intermediate_cert]
          [PathValidationResult mozilla_store ''unable to get local issuer certificate'',
           PathValidationResult microsoft_store ''ok'']
          [] (Some trusted_staple)))
       = []
   \<and> has_anchor_in_certificate_chain
       (projr (CertificateInfoResult sample_env (sample_server (Inr ()) (Some trusted_staple)) sample_command
          [x509 leaf_cert, x509 intermediate_cert]
          [PathValidationResult mozilla_store ''unable to get local issuer certificate'',
           PathValidationResult microsoft_store ''ok'']
          [] (Some trusted_staple)))
       = None"
proof -
  let ?ok = "CertificateInfoResult sample_env (sample_server (Inr ()) (Some trusted_staple)) sample_command
       [x509 leaf_cert, x509 intermediate_cert]
       [PathValidationResult mozilla_store ''ok'', PathValidationResult microsoft_store ''ok'']
       [] (Some trusted_staple)"
  let ?failed = "CertificateInfoResult sample_env (sample_server (Inr ()) (Some trusted_staple)) sample_command
       [x509 leaf_cert, x509 intermediate_cert]
       [PathValidationResult mozilla_store ''unable to get local issuer certificate'',
        PathValidationResult microsoft_store ''ok'']
       [] (Some trusted_staple)"
  have ok: "\<not> isl ?ok" and failed: "\<not> isl ?failed"
    by (simp_all add: ctor_defs sample_defs)
  have eq_ok: "?ok = Inr (projr ?ok)" and eq_failed: "?failed = Inr (projr ?failed)"
    using ok failed by simp_all
  have chain_ok: "verified_certificate_chain (projr ?ok) = [leaf_cert, intermediate_cert, root_cert]"
    by (simp add: ctor_defs sample_defs)
  have chain_failed: "verified_certificate_chain (projr ?failed) = []"
    by (simp add: ctor_defs sample_defs)
  have distinct: "root_cert \<noteq> leaf_cert" "root_cert \<noteq> intermediate_cert"
    by (simp_all add: sample_defs)
  have received: "map from_nassl [x509 leaf_cert, x509 intermediate_cert] = [leaf_cert, intermediate_cert]"
    by (simp add: x509_def)
  have flag_ok: "has_anchor_in_certificate_chain (projr ?ok) = Some False"
    using C6_anchor_flag [OF eq_ok] chain_ok distinct received by simp
  have flag_failed: "has_anchor_in_certificate_chain (projr ?failed) = None"
    using C6_anchor_flag [OF eq_failed] chain_failed by simp
  from ok failed chain_ok chain_failed flag_ok flag_failed
  show ?thesis by simp
qed

text \<open>
  C3, as the spec states it, fails on the sample scan. The server sends the intermediate
  before the leaf; the primary store, which links the leaf through the intermediate to its
  root when they come in order, signals the order fault; its verdict is \<open>ok\<close>. The
  result is constructed with the order flag false, and with an empty verified chain and
  null anchor and SHA-1 flags.
\<close>

theorem C3_counterexample:
  "build_verified_certificate_chain sample_env (map from_nassl [x509 intermediate_cert, x509 leaf_cert])
     = Inl InvalidCertificateChainOrderError
   \<and> build_verified_certificate_chain sample_env (map from_nassl [x509 leaf_cert, x509 intermediate_cert])
     = Inr [leaf_cert, intermediate_cert, root_cert]
   \<and> is_chain_trusted_by_main_store (get_main sample_env) [PathValidationResult mozilla_store ''ok''] False
   \<and> \<not> isl (CertificateInfoResult sample_env (sample_server (Inr ()) (Some trusted_staple)) sample_command
       [x509 intermediate_cert, x509 leaf_cert]
       [PathValidationResult mozilla_store ''ok''] [] (Some trusted_staple))
   \<and> \<not> is_certificate_chain_order_valid
       (projr (CertificateInfoResult sample_env (sample_server (Inr ()) (Some trusted_staple)) sample_command
          [x509 intermediate_cert, x509 leaf_cert]
          [PathValidationResult mozilla_store ''ok''] [] (Some trusted_staple)))
   \<and> verified_certificate_chain
       (projr (CertificateInfoResult sample_env (sample_server (Inr ()) (Some trusted_staple)) sample_command
          [x509 intermediate_cert, x509 leaf_cert]
          [PathValidationResult mozilla_store ''ok''] [] (Some trusted_staple))) = []
   \<and> has_anchor_in_certificate_chain
       (projr (CertificateInfoResult sample_env (sample_server (Inr ()) (Some trusted_staple)) sample_command
          [x509 intermediate_cert, x509 leaf_cert]
          [PathValidationResult mozilla_store ''ok''] [] (Some trusted_staple))) = None
   \<and> has_sha1_in_certificate_chain
       (projr (CertificateInfoResult sample_env (sample_server (Inr ()) (Some trusted_staple)) sample_command
          [x509 intermediate_cert, x509 leaf_cert]
          [PathValidationResult mozilla_store ''ok''] [] (Some trusted_staple))) = None"
  by (simp add: ctor_defs sample_defs)

text \<open>
  C3, as the code has it. When the builder of the primary store signals an order fault,
  the constructed result has the order flag false, and its verified chain is empty and
  its anchor and SHA-1 flags are null, whatever the verdict of the primary store: the
  exception leaves the verified chain as it was initialised.
\<close>

theorem C3_order_fault_leaves_no_verified_chain:
  assumes "CertificateInfoResult env srv cmd xs results errors ocsp = Inr r"
    and "build_verified_certificate_chain env (map from_nassl xs) = Inl InvalidCertificateChainOrderError"
  shows "\<not> is_certificate_chain_order_valid r
       \<and> verified_certificate_chain r = []
       \<and> has_anchor_in_certificate_chain r = None
       \<and> has_sha1_in_certificate_chain r = None"
proof -
  have "try_build_verified_chain env (map from_nassl xs) = Inr ([], False)"
    using assms(2) by (simp add: try_build_verified_chain_def)
  with verified_chain_of_result [OF assms(1)] flags_of_result [OF assms(1)]
  show ?thesis by auto
qed

theorem C3_witness:
  "build_verified_certificate_chain sample_env (map from_nassl [x509 intermediate_cert, x509 leaf_cert])
     = Inl InvalidCertificateChainOrderError
   \<and> \<not> isl (CertificateInfoResult sample_env (sample_server (Inr ()) (Some trusted_staple)) sample_command
       [x509 intermediate_cert, x509 leaf_cert]
       [PathValidationResult mozilla_store ''ok'', PathValidationResult microsoft_store ''ok'']
       [] (Some trusted_staple))
   \<and> \<not> is_certificate_chain_order_valid
       (projr (CertificateInfoResult sample_env (sample_server (Inr ()) (Some trusted_staple)) sample_command
          [x509 intermediate_cert, x509 leaf_cert]
          [PathValidationResult mozilla_store ''ok'', PathValidationResult microsoft_store ''ok'']
          [] (Some trusted_staple)))
   \<and> verified_certificate_chain
       (projr (CertificateInfoResult sample_env (sample_server (Inr ()) (Some trusted_staple)) sample_command
          [x509 intermediate_cert, x509 leaf_cert]
          [PathValidationResult mozilla_store ''ok'', PathValidationResult microsoft_store ''ok'']
          [] (Some trusted_staple))) = []
   \<and> has_anchor_in_certificate_chain
       (projr (CertificateInfoResult sample_env (sample_server (Inr ()) (Some trusted_staple)) sample_command
          [x509 intermediate_cert, x509 leaf_cert]
          [PathValidationResult mozilla_store ''ok'', PathValidationResult microsoft_store ''ok'']
          [] (Some trusted_staple))) = None
   \<and> has_sha1_in_certificate_chain
       (projr (CertificateInfoResult sample_env (sample_server (Inr ()) (Some trusted_staple)) sample_command
          [x509 intermediate_cert, x509 leaf_cert]
          [PathValidationResult mozilla_store ''ok'', PathValidationResult microsoft_store ''ok'']
          [] (Some trusted_staple))) = None"
proof -
  let ?c = "CertificateInfoResult sample_env (sample_server (Inr ()) (Some trusted_staple)) sample_command
       [x509 intermediate_cert, x509 leaf_cert]
       [PathValidationResult mozilla_store ''ok'', PathValidationResult microsoft_store ''ok'']
       [] (Some trusted_staple)"
  have ok: "\<not> isl ?c"
    by (simp add: ctor_defs sample_defs)
  then have eq: "?c = Inr (projr ?c)"
    by simp
  have fault: "build_verified_certificate_chain sample_env
                 (map from_nassl [x509 intermediate_cert, x509 leaf_cert])
               = Inl InvalidCertificateChainOrderError"
    by (simp add: sample_defs)
  from C3_order_fault_leaves_no_verified_chain [OF eq fault] ok fault
  show ?thesis by simp
qed

text \<open>
  C9. The handshake task closes its connection on every way out, whether the handshake
  and the reads return or raise. When the handshake raises the request for a client
  certificate and the three reads return, the task returns the peer chain, the verdict
  string and the staple, as it does after a handshake that returned.
\<close>

theorem C9_connection_closed_and_client_certificate_request_tolerated:
  "closed (fst (get_and_verify_certificate_chain srv ts))
   \<and> (connect (get_preconfigured_ssl_connection srv (path ts)) = Inl (ClientCertificateRequested m)
        \<and> get_tlsext_status_ocsp_resp (get_preconfigured_ssl_connection srv (path ts)) = Inr staple
        \<and> get_peer_cert_chain (get_preconfigured_ssl_connection srv (path ts)) = Inr chain
        \<and> get_certificate_chain_verify_result (get_preconfigured_ssl_connection srv (path ts))
            = Inr (n, verify_str)
      \<longrightarrow> snd (get_and_verify_certificate_chain srv ts) = Inr (chain, verify_str, staple))
   \<and> (connect (get_preconfigured_ssl_connection srv (path ts)) = Inr ()
        \<and> get_tlsext_status_ocsp_resp (get_preconfigured_ssl_connection srv (path ts)) = Inr staple
        \<and> get_peer_cert_chain (get_preconfigured_ssl_connection srv (path ts)) = Inr chain
        \<and> get_certificate_chain_verify_result (get_preconfigured_ssl_connection srv (path ts))
            = Inr (n, verify_str)
      \<longrightarrow> snd (get_and_verify_certificate_chain srv ts) = Inr (chain, verify_str, staple))"
  by (simp add: task_defs Let_def)

theorem C9_witness:
  "connect (get_preconfigured_ssl_connection
      (sample_server (Inl (ClientCertificateRequested ''client certificate requested'')) (Some trusted_staple))
      (path mozilla_store)) = Inl (ClientCertificateRequested ''client certificate requested'')
   \<and> \<not> closed (get_preconfigured_ssl_connection
      (sample_server (Inl (ClientCertificateRequested ''client certificate requested'')) (Some trusted_staple))
      (path mozilla_store))
   \<and> closed (fst (get_and_verify_certificate_chain
      (sample_server (Inl (ClientCertificateRequested ''client certificate requested'')) (Some trusted_staple))
      mozilla_store))
   \<and> snd (get_and_verify_certificate_chain
      (sample_server (Inl (ClientCertificateRequested ''client certificate requested'')) (Some trusted_staple))
      mozilla_store) = Inr ([x509 leaf_cert, x509 intermediate_cert], ''ok'', Some trusted_staple)"
  using C9_connection_closed_and_client_certificate_request_tolerated
    [of "sample_server (Inl (ClientCertificateRequested ''client certificate requested'')) (Some trusted_staple)"
        mozilla_store "''client certificate requested''" "Some trusted_staple"
        "[x509 leaf_cert, x509 intermediate_cert]" 0 "''ok''"]
  by (simp add: sample_server_def sample_connection_def)

text \<open>
  C2, at two inputs. Constructing a result without a staple raises an attribute error at
  the unguarded call of line 218, and constructing one from a staple whose verification
  raises lets that error out of the constructor: neither yields a result with a null or a
  false OCSP verdict.
\<close>

theorem C2_no_staple_or_verify_error_aborts_construction:
  "CertificateInfoResult sample_env (sample_server (Inr ()) None) sample_command
     [x509 leaf_cert, x509 intermediate_cert] [PathValidationResult mozilla_store ''ok''] [] None
     = Inl (AttributeError ''verify'')
   \<and> CertificateInfoResult sample_env (sample_server (Inr ()) (Some untrusted_staple)) sample_command
     [x509 leaf_cert, x509 intermediate_cert] [PathValidationResult mozilla_store ''ok''] []
     (Some untrusted_staple)
     = Inl (OpenSSLError ''certificate verify error'')"
  by (simp add: CertificateInfoResult_def print_ocsp_verify_def untrusted_staple_def)

text \<open>
  C4, at one input. Both handshakes of the sample scan succeed and the server sends no
  staple: no job ends in an error, and the scan raises the attribute error of the
  constructor instead of returning a result.
\<close>

theorem C4_scan_without_staple_raises:
  "get_error (sample_server (Inr ()) None)
     (finish_order sample_env (final_trust_store_list sample_env sample_command)) = []
   \<and> process_task sample_env (sample_server (Inr ()) None) sample_command
       = Inl (AttributeError ''verify'')"
  by (simp add: process_task_def final_trust_store_list_def task_defs ctor_defs sample_defs)



end
